theory Spec2Isabelle
  imports
    Complex_Main
    "HOL-Library.Multiset"
    "HOL-Library.Char_ord"
    "HOL-Library.List_Lexorder"
    "HOL-Library.Product_Lexorder"
begin

section \<open>Data model of \<^verbatim>\<open>faang.py\<close>\<close>

text \<open>
  A point in time at second resolution, as \<^verbatim>\<open>datetime\<close> compares it: field by field
  (year, month, day, hour, minute, second), which is the lexicographic order of the tuple.
  Strings compare as Python's \<^verbatim>\<open>str\<close> does: lexicographically by character code.
\<close>

type_synonym datetime = "nat \<times> nat \<times> nat \<times> nat \<times> nat \<times> nat"

text \<open>
  A price is a float that is not NaN: a finite value, taken as a real (rounding and
  overflow are left out), or one of the two infinities, which a table cell \<^verbatim>\<open>inf\<close> or
  \<^verbatim>\<open>-inf\<close> reads as. A missing value (NaN, \<^verbatim>\<open>pd.NA\<close>) is \<open>None\<close>.
\<close>

datatype price = Fin real | PInf | MInf

text \<open>
  One row of what \<^verbatim>\<open>yf.download\<close> returns after \<^verbatim>\<open>reset_index\<close>. The columns Open, High,
  Low and Volume are carried along by the program and never read; they are left out.
\<close>

record bar =
  Datetime :: datetime
  Close :: "price option"

text \<open>
  A row of the combined table: a bar tagged by \<^verbatim>\<open>df["Ticker"] = t\<close>. Every row of a table
  has a ticker and a timestamp; the cells that can be missing are the prices.
\<close>

record price_row = bar +
  Ticker :: string

text \<open>A row of the frame of \<^verbatim>\<open>plot_data\<close> once the column NormClose is there.\<close>

record norm_row = price_row +
  NormClose :: "price option"

text \<open>
  A cell of the Close column as \<^verbatim>\<open>read_csv\<close> delivers it: a text that reads as the number
  it carries (an infinity too), a text that does not read as a number, or an empty cell.
\<close>

datatype cell = Numeric price | NonNumeric string | Blank

record csv_row =
  csv_Datetime :: datetime
  csv_Close :: cell
  csv_Ticker :: string

record chart =
  title :: string
  lines :: "(string \<times> (datetime \<times> price) list) list"

datatype content = Csv "csv_row list" | Png chart

text \<open>
  A path is a directory and a file name in it. The file system is the set of directories
  that exist and the files with what they hold. Calls on it succeed: a failing disk, like a
  failing network, is outside the model.
\<close>

type_synonym path = "string \<times> string"

record filesystem =
  dirs :: "string set"
  files :: "(path \<times> content) list"

datatype error = RuntimeError string | FileNotFoundError string | ParserError

section \<open>Helpers\<close>

definition digit_char :: "nat \<Rightarrow> char" where
  "digit_char d = char_of (48 + d)"

text \<open>The decimal digits of a number in a field of fixed width, padded with zeros.\<close>

fun pad :: "nat \<Rightarrow> nat \<Rightarrow> string" where
  "pad 0 n = []"
| "pad (Suc w) n = pad w (n div 10) @ [digit_char (n mod 10)]"

text \<open>
  \<^verbatim>\<open>now.strftime("%Y%m%d-%H%M%S")\<close>, the clock reading passed in. On a datetime whose
  fields are in range (\<open>valid_datetime\<close>) no field overflows its width.
\<close>

definition timestamp_str :: "datetime \<Rightarrow> string" where
  "timestamp_str now =
     (case now of (y, mo, d, h, mi, s) \<Rightarrow>
        pad 4 y @ pad 2 mo @ pad 2 d @ ''-'' @ pad 2 h @ pad 2 mi @ pad 2 s)"


text \<open>\<^verbatim>\<open>Path(path).mkdir(parents=True, exist_ok=True)\<close>\<close>

definition ensure_dir :: "string \<Rightarrow> filesystem \<Rightarrow> filesystem" where
  "ensure_dir p fs = fs\<lparr>dirs := insert p (dirs fs)\<rparr>"

text \<open>Writing a file replaces the file of that name, or adds it.\<close>

definition write_file :: "path \<Rightarrow> content \<Rightarrow> filesystem \<Rightarrow> filesystem" where
  "write_file p c fs = fs\<lparr>files := (p, c) # filter (\<lambda>e. fst e \<noteq> p) (files fs)\<rparr>"

definition ends_with :: "string \<Rightarrow> string \<Rightarrow> bool" where
  "ends_with suf s \<longleftrightarrow> length suf \<le> length s \<and> drop (length s - length suf) s = suf"

text \<open>\<^verbatim>\<open>data_dir.glob("*.csv")\<close>: the names in the directory that end in \<^verbatim>\<open>.csv\<close>.\<close>

definition glob_csv :: "string \<Rightarrow> filesystem \<Rightarrow> string list" where
  "glob_csv d fs = [snd (fst e). e \<leftarrow> files fs, fst (fst e) = d \<and> ends_with ''.csv'' (snd (fst e))]"

section \<open>The retriever: \<^verbatim>\<open>get_data\<close>\<close>

definition tag :: "string \<Rightarrow> bar \<Rightarrow> price_row" where
  "tag t b = \<lparr>Datetime = Datetime b, Close = Close b, Ticker = t\<rparr>"

text \<open>
  The loop over the tickers. The market-data source is a function from a ticker to the
  rows it returns for the window; an empty result is the empty list. \<open>dfs\<close> is the list
  the loop appends to.
\<close>

fun fetch_all :: "(string \<Rightarrow> bar list) \<Rightarrow> string list \<Rightarrow> price_row list list \<Rightarrow> price_row list list" where
  "fetch_all download [] dfs = dfs"
| "fetch_all download (t # ts) dfs =
     (let df = download t
      in if df = [] then fetch_all download ts dfs
         else fetch_all download ts (dfs @ [map (tag t) df]))"

text \<open>\<^verbatim>\<open>combined.sort_values(["Datetime", "Ticker"])\<close>: a stable sort on the pair.\<close>

definition sort_combined :: "price_row list \<Rightarrow> price_row list" where
  "sort_combined rows = sort_key (\<lambda>r. (Datetime r, Ticker r)) rows"

definition to_csv :: "price_row list \<Rightarrow> csv_row list" where
  "to_csv rows =
     map (\<lambda>r. \<lparr>csv_Datetime = Datetime r,
                csv_Close = (case Close r of Some c \<Rightarrow> Numeric c | None \<Rightarrow> Blank),
                csv_Ticker = Ticker r\<rparr>) rows"

text \<open>
  The result of a call is the value returned or the error raised, together with the
  file system the call leaves behind.
\<close>

definition get_data ::
    "(string \<Rightarrow> bar list) \<Rightarrow> datetime \<Rightarrow> string list \<Rightarrow> filesystem \<Rightarrow> (error + path) \<times> filesystem" where
  "get_data download now tickers fs =
     (let dfs = fetch_all download tickers []
      in if dfs = [] then
           (Inl (RuntimeError ''No data downloaded. Check tickers or network.''), fs)
         else
           let combined = sort_combined (concat dfs);
               fs1 = ensure_dir ''data'' fs;
               out_path = (''data'', timestamp_str now @ ''.csv'')
           in (Inr out_path, write_file out_path (Csv (to_csv combined)) fs1))"

section \<open>The normalizer and plotter: \<^verbatim>\<open>plot_data\<close>\<close>

text \<open>
  \<^verbatim>\<open>pd.read_csv(latest, parse_dates=["Datetime"])\<close>. The table a file holds is kept as the
  frame that reading it gives: the timestamps parsed, the Close cells sorted into the three
  kinds of \<open>cell\<close>, the ticker cells as texts. A row whose ticker cell reads as missing is in
  no group of \<^verbatim>\<open>groupby\<close> and has no place in this model. Whatever makes reading fail is the
  one error \<open>ParserError\<close>.
\<close>

definition read_csv :: "filesystem \<Rightarrow> path \<Rightarrow> error + csv_row list" where
  "read_csv fs p = (case map_of (files fs) p of Some (Csv tbl) \<Rightarrow> Inr tbl | _ \<Rightarrow> Inl ParserError)"

text \<open>\<^verbatim>\<open>pd.to_numeric(df["Close"], errors="coerce")\<close> on one cell.\<close>

fun to_numeric :: "cell \<Rightarrow> price option" where
  "to_numeric (Numeric c) = Some c"
| "to_numeric (NonNumeric s) = None"
| "to_numeric Blank = None"

definition sort_frame :: "csv_row list \<Rightarrow> csv_row list" where
  "sort_frame df = sort_key (\<lambda>r. (csv_Ticker r, csv_Datetime r)) df"

definition coerce_close :: "csv_row list \<Rightarrow> price_row list" where
  "coerce_close df =
     map (\<lambda>r. \<lparr>Datetime = csv_Datetime r, Close = to_numeric (csv_Close r), Ticker = csv_Ticker r\<rparr>) df"

definition dropna :: "'a option list \<Rightarrow> 'a list" where
  "dropna series = [c. Some c \<leftarrow> series]"

text \<open>
  The quotient of two floats that are not NaN; \<open>None\<close> is the NaN that an infinity divided
  by an infinity, or zero divided by zero, gives. Zero is the one real 0: the float's two
  zeros are not told apart, and a quotient by zero gets the sign of the dividend.
  \<^verbatim>\<open>_normalize\<close> never divides by zero.
\<close>

fun fdiv :: "price \<Rightarrow> price \<Rightarrow> price option" where
  "fdiv (Fin c) (Fin b) =
     (if b \<noteq> 0 then Some (Fin (c / b))
      else if 0 < c then Some PInf else if c < 0 then Some MInf else None)"
| "fdiv (Fin c) PInf = Some (Fin 0)"
| "fdiv (Fin c) MInf = Some (Fin 0)"
| "fdiv PInf (Fin b) = Some (if 0 \<le> b then PInf else MInf)"
| "fdiv MInf (Fin b) = Some (if 0 \<le> b then MInf else PInf)"
| "fdiv PInf PInf = None"
| "fdiv PInf MInf = None"
| "fdiv MInf PInf = None"
| "fdiv MInf MInf = None"

text \<open>What \<^verbatim>\<open>_normalize\<close> returns: a series, or the scalar \<^verbatim>\<open>pd.NA\<close>.\<close>

datatype normalized = Series "price option list" | NA

text \<open>Line 87: the first value that is not missing, \<^verbatim>\<open>pd.NA\<close> when there is none.\<close>

definition base_of :: "price option list \<Rightarrow> price option" where
  "base_of series = (case dropna series of [] \<Rightarrow> None | b # _ \<Rightarrow> Some b)"

text \<open>
  Line 88, \<^verbatim>\<open>series / base\<close> on one entry: a missing close stays missing, a close that is
  there is divided by the base.
\<close>

definition div_entry :: "price option \<Rightarrow> price \<Rightarrow> price option" where
  "div_entry c b = (case c of None \<Rightarrow> None | Some x \<Rightarrow> fdiv x b)"

definition normalize_series :: "price option list \<Rightarrow> normalized" where
  "normalize_series series =
     (let base = base_of series
      in case base of
           Some b \<Rightarrow> if b \<noteq> Fin 0 then Series (map (\<lambda>c. div_entry c b) series) else NA
         | None \<Rightarrow> NA)"

definition group_of :: "string \<Rightarrow> ('a price_row_scheme) list \<Rightarrow> ('a price_row_scheme) list" where
  "group_of t df = filter (\<lambda>r. Ticker r = t) df"

text \<open>
  \<^verbatim>\<open>groupby("Ticker")["Close"].transform(_normalize)\<close>: the function is applied to the
  Close column of each group, a scalar result is spread over the group, and every row gets
  the entry at its position in its group.
\<close>

definition transformed :: "string \<Rightarrow> price_row list \<Rightarrow> price option list" where
  "transformed t df =
     (let g = group_of t df
      in case normalize_series (map Close g) of
           Series s \<Rightarrow> s
         | NA \<Rightarrow> replicate (length g) None)"

definition transform_normalize :: "price_row list \<Rightarrow> price option list" where
  "transform_normalize df =
     map (\<lambda>i. let t = Ticker (df ! i)
               in transformed t df ! length (group_of t (take i df))) [0..<length df]"

definition with_norm :: "price_row list \<Rightarrow> norm_row list" where
  "with_norm df =
     map (\<lambda>(r, v). \<lparr>Datetime = Datetime r, Close = Close r, Ticker = Ticker r, NormClose = v\<rparr>)
       (zip df (transform_normalize df))"

text \<open>Lines 83 to 89: the frame with its NormClose column.\<close>

definition normalized_frame :: "csv_row list \<Rightarrow> norm_row list" where
  "normalized_frame tbl = with_norm (coerce_close (sort_frame tbl))"

text \<open>
  The plotting loop: the groups in the order of their keys; the rows without a NormClose
  are dropped, and a group with rows left gets a line labelled by its ticker.
\<close>

definition chart_lines :: "norm_row list \<Rightarrow> (string \<times> (datetime \<times> price) list) list" where
  "chart_lines df =
     concat (map (\<lambda>t. let g = filter (\<lambda>r. NormClose r \<noteq> None) (group_of t df)
                       in if g \<noteq> [] then [(t, map (\<lambda>r. (Datetime r, the (NormClose r))) g)] else [])
                 (sort (remdups (map Ticker df))))"

text \<open>
  \<^verbatim>\<open>latest.stem.split("-")[0]\<close> for a name that ends in \<^verbatim>\<open>.csv\<close>; the name \<^verbatim>\<open>.csv\<close>
  itself has no suffix to strip.
\<close>

definition title_date :: "string \<Rightarrow> string" where
  "title_date name =
     takeWhile (\<lambda>c. c \<noteq> CHR ''-'')
       (if name = ''.csv'' then name else take (length name - 4) name)"

definition render :: "string \<Rightarrow> csv_row list \<Rightarrow> chart" where
  "render latest tbl =
     \<lparr>title = ''FAANG Normalized Close '' @ [CHR 0xE2, CHR 0x80, CHR 0x94] @ '' '' @ title_date latest,
      lines = chart_lines (normalized_frame tbl)\<rparr>"

text \<open>Lines 76 to 79: the name of the latest table file, or the error of line 78.\<close>

definition latest_csv :: "filesystem \<Rightarrow> error + string" where
  "latest_csv fs =
     (let fls = sort (glob_csv ''data'' fs)
      in if fls = [] then
           Inl (FileNotFoundError ''No CSV files in data/. Run download first.'')
         else Inr (last fls))"

text \<open>Lines 76 to 80: the latest table file and the table read from it.\<close>

definition load_latest :: "filesystem \<Rightarrow> error + string \<times> csv_row list" where
  "load_latest fs =
     (case latest_csv fs of
        Inl e \<Rightarrow> Inl e
      | Inr latest \<Rightarrow>
          (case read_csv fs (''data'', latest) of
             Inl e \<Rightarrow> Inl e
           | Inr tbl \<Rightarrow> Inr (latest, tbl)))"

definition plot_data :: "datetime \<Rightarrow> filesystem \<Rightarrow> (error + path) \<times> filesystem" where
  "plot_data now fs =
     (let fs1 = ensure_dir ''data'' fs
      in case load_latest fs1 of
           Inl e \<Rightarrow> (Inl e, fs1)
         | Inr (latest, tbl) \<Rightarrow>
             let fig = render latest tbl;
                 fs2 = ensure_dir ''plots'' fs1;
                 out_path = (''plots'', timestamp_str now @ ''.png'')
             in (Inr out_path, write_file out_path (Png fig) fs2))"

section \<open>Notions used in the statements\<close>

text \<open>
  The entry of the normalized series that belongs to a close \<open>c\<close> of a group whose base
  is \<open>base\<close>: what \<open>transformed\<close> puts at the position of \<open>c\<close>.
\<close>

definition norm_value :: "price option \<Rightarrow> price option \<Rightarrow> price option" where
  "norm_value base c =
     (case base of
        Some b \<Rightarrow> if b \<noteq> Fin 0 then div_entry c b else None
      | None \<Rightarrow> None)"

text \<open>
  A table to run the functions on: ticker A starts with an empty cell and has a cell that
  is no number, B is plain, E has no close at all, the base of N is negative, that of Z
  is zero.
\<close>

definition example_table :: "csv_row list" where
  "example_table =
     [\<lparr>csv_Datetime = (2024, 1, 2, 11, 0, 0), csv_Close = Numeric (Fin 90), csv_Ticker = ''B''\<rparr>,
      \<lparr>csv_Datetime = (2024, 1, 2, 10, 0, 0), csv_Close = Blank, csv_Ticker = ''A''\<rparr>,
      \<lparr>csv_Datetime = (2024, 1, 2, 12, 0, 0), csv_Close = NonNumeric ''n/a'', csv_Ticker = ''A''\<rparr>,
      \<lparr>csv_Datetime = (2024, 1, 2, 11, 0, 0), csv_Close = Numeric (Fin 10), csv_Ticker = ''A''\<rparr>,
      \<lparr>csv_Datetime = (2024, 1, 2, 13, 0, 0), csv_Close = Numeric (Fin 11), csv_Ticker = ''A''\<rparr>,
      \<lparr>csv_Datetime = (2024, 1, 2, 10, 0, 0), csv_Close = Numeric (Fin 100), csv_Ticker = ''B''\<rparr>,
      \<lparr>csv_Datetime = (2024, 1, 2, 10, 0, 0), csv_Close = Numeric (Fin 0), csv_Ticker = ''Z''\<rparr>,
      \<lparr>csv_Datetime = (2024, 1, 2, 11, 0, 0), csv_Close = Numeric (Fin 5), csv_Ticker = ''Z''\<rparr>,
      \<lparr>csv_Datetime = (2024, 1, 2, 11, 0, 0), csv_Close = Numeric (Fin 2), csv_Ticker = ''N''\<rparr>,
      \<lparr>csv_Datetime = (2024, 1, 2, 10, 0, 0), csv_Close = Numeric (Fin (- 4)), csv_Ticker = ''N''\<rparr>,
      \<lparr>csv_Datetime = (2024, 1, 2, 10, 0, 0), csv_Close = Blank, csv_Ticker = ''E''\<rparr>]"

text \<open>A table with infinite closes: the base of P is \<^verbatim>\<open>inf\<close>, that of M is \<^verbatim>\<open>-inf\<close>.\<close>

definition inf_table :: "csv_row list" where
  "inf_table =
     [\<lparr>csv_Datetime = (2024, 1, 2, 10, 0, 0), csv_Close = Numeric PInf, csv_Ticker = ''P''\<rparr>,
      \<lparr>csv_Datetime = (2024, 1, 2, 11, 0, 0), csv_Close = Numeric (Fin 5), csv_Ticker = ''P''\<rparr>,
      \<lparr>csv_Datetime = (2024, 1, 2, 10, 0, 0), csv_Close = Numeric MInf, csv_Ticker = ''M''\<rparr>,
      \<lparr>csv_Datetime = (2024, 1, 2, 11, 0, 0), csv_Close = Numeric (Fin 2), csv_Ticker = ''M''\<rparr>]"

text \<open>A file system whose data directory holds two tables, the later one \<open>example_table\<close>.\<close>

definition example_fs :: filesystem where
  "example_fs =
     \<lparr>dirs = {''data''},
      files = [((''data'', ''20240305-020459.csv''), Csv example_table),
               ((''data'', ''20240304-235959.csv''), Csv []),
               ((''data'', ''notes.txt''), Csv []),
               ((''plots'', ''20240307-000000.csv''), Csv [])]\<rparr>"

text \<open>A market-data source that has rows for A and B and nothing for any other ticker.\<close>

definition example_download :: "string \<Rightarrow> bar list" where
  "example_download t =
     (if t = ''A'' then
        [\<lparr>Datetime = (2024, 1, 2, 10, 0, 0), Close = Some (Fin 10)\<rparr>,
         \<lparr>Datetime = (2024, 1, 2, 11, 0, 0), Close = Some (Fin 11)\<rparr>,
         \<lparr>Datetime = (2024, 1, 2, 12, 0, 0), Close = Some (Fin 12)\<rparr>]
      else if t = ''B'' then
        [\<lparr>Datetime = (2024, 1, 2, 10, 0, 0), Close = Some (Fin 100)\<rparr>,
         \<lparr>Datetime = (2024, 1, 2, 11, 0, 0), Close = Some (Fin 90)\<rparr>]
      else [])"

text \<open>A file system with no directory and no file.\<close>

definition empty_fs :: filesystem where
  "empty_fs = \<lparr>dirs = {}, files = []\<rparr>"

section \<open>Normalization per ticker\<close>

lemma filter_nth_take:
  assumes "i < length xs" and "P (xs ! i)"
  shows "length (filter P (take i xs)) < length (filter P xs) \<and>
     filter P xs ! length (filter P (take i xs)) = xs ! i"
proof -
  have "xs = take i xs @ xs ! i # drop (Suc i) xs"
    using assms(1) by (simp add: id_take_nth_drop)
  then have "filter P xs = filter P (take i xs) @ xs ! i # filter P (drop (Suc i) xs)"
    using assms(2) by (metis filter.simps(2) filter_append)
  then show ?thesis by (simp add: nth_append)
qed

lemma transformed_eq:
  "transformed t df =
     map (\<lambda>r. norm_value (base_of (map Close (group_of t df))) (Close r)) (group_of t df)"
  by (simp add: transformed_def normalize_series_def norm_value_def Let_def map_replicate_const
      split: option.splits)

text \<open>Every row gets the entry computed from its own close and the base of its group.\<close>

lemma transform_normalize_eq:
  "transform_normalize df =
     map (\<lambda>r. norm_value (base_of (map Close (group_of (Ticker r) df))) (Close r)) df"
    (is "?lhs = ?rhs")
proof (rule nth_equalityI)
  show "length ?lhs = length ?rhs"
    by (simp add: transform_normalize_def)
next
  fix i assume "i < length ?lhs"
  then have i: "i < length df" by (simp add: transform_normalize_def)
  let ?t = "Ticker (df ! i)"
  from filter_nth_take[of i df "\<lambda>r. Ticker r = ?t"] i
  have k: "length (group_of ?t (take i df)) < length (group_of ?t df)"
    and e: "group_of ?t df ! length (group_of ?t (take i df)) = df ! i"
    by (simp_all add: group_of_def)
  show "?lhs ! i = ?rhs ! i"
    using i k e by (simp add: transform_normalize_def Let_def transformed_eq)
qed

lemma with_norm_eq:
  "with_norm df =
     map (\<lambda>r. \<lparr>Datetime = Datetime r, Close = Close r, Ticker = Ticker r,
               NormClose = norm_value (base_of (map Close (group_of (Ticker r) df))) (Close r)\<rparr>) df"
  by (simp add: with_norm_def transform_normalize_eq zip_map2 zip_same_conv_map)

lemma group_of_with_norm:
  "group_of t (with_norm df) =
     map (\<lambda>r. \<lparr>Datetime = Datetime r, Close = Close r, Ticker = Ticker r,
               NormClose = norm_value (base_of (map Close (group_of t df))) (Close r)\<rparr>)
       (group_of t df)"
  by (simp add: with_norm_eq group_of_def filter_map o_def cong: map_cong)

lemma frame_group:
  "group_of t (normalized_frame tbl) =
     map (\<lambda>r. \<lparr>Datetime = csv_Datetime r, Close = to_numeric (csv_Close r), Ticker = csv_Ticker r,
               NormClose = norm_value
                 (base_of (map (\<lambda>r. to_numeric (csv_Close r))
                    (filter (\<lambda>r. csv_Ticker r = t) (sort_frame tbl))))
                 (to_numeric (csv_Close r))\<rparr>)
       (filter (\<lambda>r. csv_Ticker r = t) (sort_frame tbl))"
  by (simp add: normalized_frame_def group_of_with_norm)
     (simp add: group_of_def coerce_close_def filter_map o_def)

lemma norm_of_frame_group:
  "map NormClose (group_of t (normalized_frame tbl)) =
     map (norm_value (base_of (map Close (group_of t (normalized_frame tbl)))))
       (map Close (group_of t (normalized_frame tbl)))"
  by (simp add: normalized_frame_def group_of_with_norm o_def)

text \<open>Within a group the rows are in chronological order.\<close>

lemma sorted_group:
  "sorted (map Datetime (group_of t (normalized_frame tbl)))"
proof -
  let ?key = "\<lambda>r. (csv_Ticker r, csv_Datetime r)"
  let ?g = "filter (\<lambda>r. csv_Ticker r = t) (sort_frame tbl)"
  have "sorted (map ?key ?g)"
    unfolding sort_frame_def by (rule sorted_filter) simp
  then have "sorted_wrt (\<lambda>x y. ?key x \<le> ?key y) ?g"
    by (simp add: sorted_map)
  then have "sorted_wrt (\<lambda>x y. csv_Datetime x \<le> csv_Datetime y) ?g"
    by (rule sorted_wrt_mono_rel[rotated]) (auto simp: less_eq_prod_def)
  then have "sorted (map csv_Datetime ?g)"
    by (simp add: sorted_map)
  then show ?thesis
    by (simp add: frame_group o_def)
qed

lemma base_of_first: "base_of (replicate k None @ Some b # rest) = Some b"
  by (induction k) (simp_all add: base_of_def dropna_def)

lemma base_of_none: "base_of (replicate n None) = None"
  by (induction n) (simp_all add: base_of_def dropna_def)

lemma sort_frame_example:
  "sort_frame example_table =
     [\<lparr>csv_Datetime = (2024, 1, 2, 10, 0, 0), csv_Close = Blank, csv_Ticker = ''A''\<rparr>,
      \<lparr>csv_Datetime = (2024, 1, 2, 11, 0, 0), csv_Close = Numeric (Fin 10), csv_Ticker = ''A''\<rparr>,
      \<lparr>csv_Datetime = (2024, 1, 2, 12, 0, 0), csv_Close = NonNumeric ''n/a'', csv_Ticker = ''A''\<rparr>,
      \<lparr>csv_Datetime = (2024, 1, 2, 13, 0, 0), csv_Close = Numeric (Fin 11), csv_Ticker = ''A''\<rparr>,
      \<lparr>csv_Datetime = (2024, 1, 2, 10, 0, 0), csv_Close = Numeric (Fin 100), csv_Ticker = ''B''\<rparr>,
      \<lparr>csv_Datetime = (2024, 1, 2, 11, 0, 0), csv_Close = Numeric (Fin 90), csv_Ticker = ''B''\<rparr>,
      \<lparr>csv_Datetime = (2024, 1, 2, 10, 0, 0), csv_Close = Blank, csv_Ticker = ''E''\<rparr>,
      \<lparr>csv_Datetime = (2024, 1, 2, 10, 0, 0), csv_Close = Numeric (Fin (- 4)), csv_Ticker = ''N''\<rparr>,
      \<lparr>csv_Datetime = (2024, 1, 2, 11, 0, 0), csv_Close = Numeric (Fin 2), csv_Ticker = ''N''\<rparr>,
      \<lparr>csv_Datetime = (2024, 1, 2, 10, 0, 0), csv_Close = Numeric (Fin 0), csv_Ticker = ''Z''\<rparr>,
      \<lparr>csv_Datetime = (2024, 1, 2, 11, 0, 0), csv_Close = Numeric (Fin 5), csv_Ticker = ''Z''\<rparr>]"
  by (simp add: sort_frame_def example_table_def less_eq_prod_def less_prod_def)

lemma sort_frame_inf_table:
  "sort_frame inf_table =
     [\<lparr>csv_Datetime = (2024, 1, 2, 10, 0, 0), csv_Close = Numeric MInf, csv_Ticker = ''M''\<rparr>,
      \<lparr>csv_Datetime = (2024, 1, 2, 11, 0, 0), csv_Close = Numeric (Fin 2), csv_Ticker = ''M''\<rparr>,
      \<lparr>csv_Datetime = (2024, 1, 2, 10, 0, 0), csv_Close = Numeric PInf, csv_Ticker = ''P''\<rparr>,
      \<lparr>csv_Datetime = (2024, 1, 2, 11, 0, 0), csv_Close = Numeric (Fin 5), csv_Ticker = ''P''\<rparr>]"
  by (simp add: sort_frame_def inf_table_def less_eq_prod_def less_prod_def)

text \<open>By a finite base that is not zero every close that is there has a quotient.\<close>

lemma div_entry_finite:
  "b \<noteq> 0 \<Longrightarrow>
     div_entry c (Fin b) =
       (case c of
          None \<Rightarrow> None
        | Some (Fin x) \<Rightarrow> Some (Fin (x / b))
        | Some PInf \<Rightarrow> Some (if 0 < b then PInf else MInf)
        | Some MInf \<Rightarrow> Some (if 0 < b then MInf else PInf))"
  by (auto simp: div_entry_def split: option.splits price.splits)

text \<open>
  C1, as the code has it. In the frame of \<open>plot_data\<close>, sorted by ticker and time, take the
  group of a ticker whose closes are missing up to a first value \<open>b\<close> that is finite and not
  zero. The group is in chronological order, and in each of its rows NormClose is the
  close divided by \<open>b\<close> where the close is present (an infinite close gives the infinity
  with the sign of the quotient) and is missing where the close is missing.
\<close>

theorem normalize_rebases_group:
  assumes "map Close (group_of t (normalized_frame tbl)) = replicate k None @ Some (Fin b) # rest"
    and "b \<noteq> 0"
  shows "sorted (map Datetime (group_of t (normalized_frame tbl))) \<and>
     (\<forall>r \<in> set (group_of t (normalized_frame tbl)).
        NormClose r =
          (case Close r of
             None \<Rightarrow> None
           | Some (Fin c) \<Rightarrow> Some (Fin (c / b))
           | Some PInf \<Rightarrow> Some (if 0 < b then PInf else MInf)
           | Some MInf \<Rightarrow> Some (if 0 < b then MInf else PInf)))"
proof -
  let ?g = "group_of t (normalized_frame tbl)"
  have "base_of (map Close ?g) = Some (Fin b)"
    using assms(1) by (simp add: base_of_first)
  then have "map NormClose ?g = map (norm_value (Some (Fin b))) (map Close ?g)"
    using norm_of_frame_group[of t tbl] by simp
  then have "\<forall>r \<in> set ?g. NormClose r = norm_value (Some (Fin b)) (Close r)"
    by simp
  then have "\<forall>r \<in> set ?g. NormClose r = div_entry (Close r) (Fin b)"
    using assms(2) by (simp add: norm_value_def)
  then show ?thesis
    by (simp add: sorted_group div_entry_finite[OF assms(2)])
qed

theorem normalize_rebases_group_witness:
  "map Close (group_of ''A'' (normalized_frame example_table)) =
       replicate 1 None @ Some (Fin 10) # [None, Some (Fin 11)]
   \<and> (10 :: real) \<noteq> 0
   \<and> sorted (map Datetime (group_of ''A'' (normalized_frame example_table)))
   \<and> map NormClose (group_of ''A'' (normalized_frame example_table)) =
       [None, Some (Fin 1), None, Some (Fin (11 / 10))]"
proof -
  let ?g = "group_of ''A'' (normalized_frame example_table)"
  let ?q = "\<lambda>c. case c of
             None \<Rightarrow> None
           | Some (Fin c) \<Rightarrow> Some (Fin (c / 10))
           | Some PInf \<Rightarrow> Some (if (0 :: real) < 10 then PInf else MInf)
           | Some MInf \<Rightarrow> Some (if (0 :: real) < 10 then MInf else PInf)"
  have h: "map Close ?g = replicate 1 None @ Some (Fin 10) # [None, Some (Fin 11)]"
    by (simp add: frame_group sort_frame_example)
  have b: "(10 :: real) \<noteq> 0" by simp
  from normalize_rebases_group[OF h b]
  have s: "sorted (map Datetime ?g)"
    and "\<forall>r \<in> set ?g. NormClose r = ?q (Close r)"
    by blast+
  then have "map NormClose ?g = map ?q (map Close ?g)"
    by simp
  then have "map NormClose ?g = [None, Some (Fin 1), None, Some (Fin (11 / 10))]"
    by (simp only: h) simp
  with h s show ?thesis by simp
qed

text \<open>
  C1 as the specification words it, for every base that is not zero, fails: \<^verbatim>\<open>inf\<close> is a
  close that is there and is not zero, and as a base it leaves its own row without a
  NormClose, since an infinity divided by itself is NaN.
\<close>

theorem infinite_base_row_is_missing:
  "map Close (group_of ''P'' (normalized_frame inf_table)) = [Some PInf, Some (Fin 5)]
   \<and> PInf \<noteq> Fin 0
   \<and> map NormClose (group_of ''P'' (normalized_frame inf_table)) = [None, Some (Fin 0)]"
  by (simp add: frame_group sort_frame_inf_table norm_value_def base_of_def dropna_def div_entry_def)

section \<open>The chart of \<^verbatim>\<open>plot_data\<close>\<close>

lemma frame_eq:
  "normalized_frame tbl =
     map (\<lambda>r. \<lparr>Datetime = csv_Datetime r, Close = to_numeric (csv_Close r), Ticker = csv_Ticker r,
               NormClose = norm_value
                 (base_of (map Close (group_of (csv_Ticker r) (coerce_close (sort_frame tbl)))))
                 (to_numeric (csv_Close r))\<rparr>)
       (sort_frame tbl)"
  by (simp add: normalized_frame_def with_norm_eq) (simp add: coerce_close_def o_def)

lemma chart_labels:
  "t \<in> fst ` set (chart_lines df) \<longleftrightarrow> (\<exists>r \<in> set df. Ticker r = t \<and> NormClose r \<noteq> None)"
proof -
  have "t \<in> fst ` set (chart_lines df) \<longleftrightarrow>
      t \<in> Ticker ` set df \<and> filter (\<lambda>r. NormClose r \<noteq> None) (group_of t df) \<noteq> []"
    by (force simp: chart_lines_def Let_def split: if_splits)
  also have "\<dots> \<longleftrightarrow> (\<exists>r \<in> set df. Ticker r = t \<and> NormClose r \<noteq> None)"
    by (auto simp: group_of_def filter_empty_conv)
  finally show ?thesis .
qed

lemma plot_data_loaded:
  "load_latest (ensure_dir ''data'' fs) = Inr (latest, tbl) \<Longrightarrow>
     plot_data now fs =
       (Inr (''plots'', timestamp_str now @ ''.png''),
        write_file (''plots'', timestamp_str now @ ''.png'') (Png (render latest tbl))
          (ensure_dir ''plots'' (ensure_dir ''data'' fs)))"
  by (simp add: plot_data_def Let_def)

lemma map_of_write_file: "map_of (files (write_file p c fs)) p = Some c"
  by (simp add: write_file_def)

lemma load_latest_example:
  "load_latest (ensure_dir ''data'' example_fs) = Inr (''20240305-020459.csv'', example_table)"
  by (simp add: load_latest_def latest_csv_def ensure_dir_def example_fs_def glob_csv_def
      ends_with_def read_csv_def Let_def)

text \<open>
  C10, as the code has it. A finite base below zero is a base like any other: for the group
  of a ticker whose first close that is not missing is a finite \<open>b < 0\<close>,
  \<open>normalize_series\<close> returns a series, NormClose is 1 at the position of the base, and
  every other close \<open>c\<close> that is present becomes \<open>c / b\<close> (an infinite one the opposite
  infinity); the missing ones stay missing.
\<close>

theorem negative_base_normalizes:
  assumes "map Close (group_of t (normalized_frame tbl)) = replicate k None @ Some (Fin b) # rest"
    and "b < 0"
  shows "normalize_series (replicate k None @ Some (Fin b) # rest) =
       Series (replicate k None @ Some (Fin 1) #
         map (\<lambda>c. case c of
                None \<Rightarrow> None
              | Some (Fin x) \<Rightarrow> Some (Fin (x / b))
              | Some PInf \<Rightarrow> Some MInf
              | Some MInf \<Rightarrow> Some PInf) rest)
     \<and> map NormClose (group_of t (normalized_frame tbl)) =
       replicate k None @ Some (Fin 1) #
         map (\<lambda>c. case c of
                None \<Rightarrow> None
              | Some (Fin x) \<Rightarrow> Some (Fin (x / b))
              | Some PInf \<Rightarrow> Some MInf
              | Some MInf \<Rightarrow> Some PInf) rest"
proof -
  let ?g = "group_of t (normalized_frame tbl)"
  let ?q = "\<lambda>c. case c of
              None \<Rightarrow> None
            | Some (Fin x) \<Rightarrow> Some (Fin (x / b))
            | Some PInf \<Rightarrow> Some MInf
            | Some MInf \<Rightarrow> Some PInf"
  have nz: "b \<noteq> 0"
    using assms(2) by simp
  have q: "div_entry c (Fin b) = ?q c" for c
    using assms(2) by (simp add: div_entry_finite[OF nz] split: option.splits price.splits)
  have base: "base_of (replicate k None @ Some (Fin b) # rest) = Some (Fin b)"
    by (rule base_of_first)
  have d: "map (\<lambda>c. div_entry c (Fin b)) (replicate k None @ Some (Fin b) # rest) =
      replicate k None @ Some (Fin 1) # map ?q rest"
    using nz by (simp add: q)
  have "normalize_series (replicate k None @ Some (Fin b) # rest) =
      Series (replicate k None @ Some (Fin 1) # map ?q rest)"
    using nz by (simp only: normalize_series_def base Let_def option.case d) simp
  moreover have "map NormClose ?g =
      map (norm_value (Some (Fin b))) (replicate k None @ Some (Fin b) # rest)"
    using norm_of_frame_group[of t tbl] assms(1) base by simp
  then have "map NormClose ?g = map (\<lambda>c. div_entry c (Fin b)) (replicate k None @ Some (Fin b) # rest)"
    using nz by (simp add: norm_value_def)
  then have "map NormClose ?g = replicate k None @ Some (Fin 1) # map ?q rest"
    by (simp only: d)
  ultimately show ?thesis by simp
qed

theorem negative_base_normalizes_witness:
  "map Close (group_of ''N'' (normalized_frame example_table)) =
       replicate 0 None @ Some (Fin (- 4)) # [Some (Fin 2)]
   \<and> (- 4 :: real) < 0
   \<and> normalize_series [Some (Fin (- 4)), Some (Fin 2)] = Series [Some (Fin 1), Some (Fin (- (1 / 2)))]
   \<and> map NormClose (group_of ''N'' (normalized_frame example_table)) =
       [Some (Fin 1), Some (Fin (- (1 / 2)))]"
proof -
  have h: "map Close (group_of ''N'' (normalized_frame example_table)) =
      replicate 0 None @ Some (Fin (- 4)) # [Some (Fin 2)]"
    by (simp add: frame_group sort_frame_example)
  have b: "(- 4 :: real) < 0" by simp
  from negative_base_normalizes[OF h b] h show ?thesis by simp
qed

text \<open>
  C10 as the specification words it, for every base below zero, fails: \<^verbatim>\<open>-inf\<close> is below
  zero and is not excluded by line 88, and as a base it leaves its own row without a
  NormClose instead of giving 1.
\<close>

theorem negative_infinite_base_row_is_missing:
  "map Close (group_of ''M'' (normalized_frame inf_table)) = [Some MInf, Some (Fin 2)]
   \<and> MInf \<noteq> Fin 0
   \<and> normalize_series [Some MInf, Some (Fin 2)] = Series [None, Some (Fin 0)]
   \<and> map NormClose (group_of ''M'' (normalized_frame inf_table)) = [None, Some (Fin 0)]"
  by (simp add: frame_group sort_frame_inf_table norm_value_def normalize_series_def base_of_def
      dropna_def div_entry_def)

text \<open>
  C2. Let \<open>plot_data\<close> load a table in which all closes of ticker \<open>t\<close> are missing, or the
  first one that is not missing is 0. Then \<open>normalize_series\<close> returns the scalar NA for the
  group and divides nothing, NormClose is missing in every row of the group,
  \<open>plot_data\<close> returns the path of the chart it wrote, and no line of that chart is
  labelled \<open>t\<close>.
\<close>

theorem undefined_base_gives_no_line:
  assumes "load_latest (ensure_dir ''data'' fs) = Inr (latest, tbl)"
    and "set (map Close (group_of t (normalized_frame tbl))) \<subseteq> {None}
       \<or> map Close (group_of t (normalized_frame tbl)) = replicate k None @ Some (Fin 0) # rest"
  shows "normalize_series (map Close (group_of t (normalized_frame tbl))) = NA
     \<and> (\<forall>r \<in> set (group_of t (normalized_frame tbl)). NormClose r = None)
     \<and> fst (plot_data now fs) = Inr (''plots'', timestamp_str now @ ''.png'')
     \<and> map_of (files (snd (plot_data now fs))) (''plots'', timestamp_str now @ ''.png'') =
         Some (Png (render latest tbl))
     \<and> t \<notin> fst ` set (lines (render latest tbl))"
proof -
  let ?g = "group_of t (normalized_frame tbl)"
  have base: "base_of (map Close ?g) = None \<or> base_of (map Close ?g) = Some (Fin 0)"
  proof -
    { assume "set (map Close ?g) \<subseteq> {None}"
      then have "map Close ?g = replicate (length ?g) None"
        by (intro replicate_eqI) auto
      then have "base_of (map Close ?g) = None"
        by (metis base_of_none) }
    moreover
    { assume "map Close ?g = replicate k None @ Some (Fin 0) # rest"
      then have "base_of (map Close ?g) = Some (Fin 0)"
        by (simp add: base_of_first) }
    ultimately show ?thesis using assms(2) by blast
  qed
  then have na: "normalize_series (map Close ?g) = NA"
    by (auto simp: normalize_series_def)
  have "map NormClose ?g = map (\<lambda>c. None) (map Close ?g)"
    using base norm_of_frame_group[of t tbl] by (auto simp: norm_value_def)
  then have none: "\<forall>r \<in> set ?g. NormClose r = None"
    by simp
  then have "t \<notin> fst ` set (chart_lines (normalized_frame tbl))"
    by (auto simp: chart_labels group_of_def)
  then have "t \<notin> fst ` set (lines (render latest tbl))"
    by (simp add: render_def)
  with na none show ?thesis
    by (simp add: plot_data_loaded[OF assms(1)] map_of_write_file)
qed

theorem undefined_base_gives_no_line_witness:
  "load_latest (ensure_dir ''data'' example_fs) = Inr (''20240305-020459.csv'', example_table)
   \<and> map Close (group_of ''Z'' (normalized_frame example_table)) = replicate 0 None @ Some (Fin 0) # [Some (Fin 5)]
   \<and> map NormClose (group_of ''Z'' (normalized_frame example_table)) = [None, None]
   \<and> set (map Close (group_of ''E'' (normalized_frame example_table))) \<subseteq> {None}
   \<and> map NormClose (group_of ''E'' (normalized_frame example_table)) = [None]
   \<and> fst (plot_data (2024, 3, 6, 9, 30, 0) example_fs) = Inr (''plots'', ''20240306-093000.png'')
   \<and> ''Z'' \<notin> fst ` set (lines (render ''20240305-020459.csv'' example_table))
   \<and> ''E'' \<notin> fst ` set (lines (render ''20240305-020459.csv'' example_table))"
proof -
  let ?g = "group_of ''Z'' (normalized_frame example_table)"
  let ?e = "group_of ''E'' (normalized_frame example_table)"
  have h: "map Close ?g = replicate 0 None @ Some (Fin 0) # [Some (Fin 5)]"
    by (simp add: frame_group sort_frame_example)
  have len: "length ?g = 2"
    by (simp add: frame_group sort_frame_example)
  have he: "set (map Close ?e) \<subseteq> {None}"
    by (simp add: frame_group sort_frame_example)
  have lene: "length ?e = 1"
    by (simp add: frame_group sort_frame_example)
  have ts: "timestamp_str (2024, 3, 6, 9, 30, 0) = ''20240306-093000''"
    by code_simp
  from undefined_base_gives_no_line[OF load_latest_example disjI2, OF h, of "(2024, 3, 6, 9, 30, 0)"]
  have n: "\<forall>r \<in> set ?g. NormClose r = None"
    and p: "fst (plot_data (2024, 3, 6, 9, 30, 0) example_fs) = Inr (''plots'', ''20240306-093000.png'')"
    and l: "''Z'' \<notin> fst ` set (lines (render ''20240305-020459.csv'' example_table))"
    by (simp_all add: ts)
  from undefined_base_gives_no_line[OF load_latest_example disjI1, OF he, of "(2024, 3, 6, 9, 30, 0)"]
  have ne: "\<forall>r \<in> set ?e. NormClose r = None"
    and le: "''E'' \<notin> fst ` set (lines (render ''20240305-020459.csv'' example_table))"
    by simp_all
  from n have "map NormClose ?g = replicate (length ?g) None"
    by (intro replicate_eqI) auto
  then have g2: "map NormClose ?g = [None, None]"
    by (simp add: len numeral_2_eq_2)
  from ne have "map NormClose ?e = replicate (length ?e) None"
    by (intro replicate_eqI) auto
  then have e1: "map NormClose ?e = [None]"
    by (simp add: lene)
  from h g2 he e1 p l le load_latest_example show ?thesis by simp
qed

text \<open>
  C8. Let \<open>plot_data\<close> load a table with a row whose Close cell is a text that is no number.
  Then \<open>plot_data\<close> raises nothing, the frame has as many rows as the table, and the row is
  in the frame with a missing Close and a missing NormClose.
\<close>

theorem non_numeric_close_is_missing:
  assumes "load_latest (ensure_dir ''data'' fs) = Inr (latest, tbl)"
    and "r \<in> set tbl" and "csv_Close r = NonNumeric s"
  shows "fst (plot_data now fs) = Inr (''plots'', timestamp_str now @ ''.png'')
     \<and> length (normalized_frame tbl) = length tbl
     \<and> \<lparr>Datetime = csv_Datetime r, Close = None, Ticker = csv_Ticker r, NormClose = None\<rparr>
         \<in> set (normalized_frame tbl)"
proof -
  have "r \<in> set (sort_frame tbl)"
    using assms(2) by (simp add: sort_frame_def)
  then have "\<lparr>Datetime = csv_Datetime r, Close = None, Ticker = csv_Ticker r, NormClose = None\<rparr>
      \<in> set (normalized_frame tbl)"
    using assms(3) by (force simp: frame_eq norm_value_def div_entry_def image_iff split: option.splits)
  moreover have "length (normalized_frame tbl) = length tbl"
    by (simp add: frame_eq sort_frame_def)
  ultimately show ?thesis
    by (simp add: plot_data_loaded[OF assms(1)])
qed

theorem non_numeric_close_is_missing_witness:
  "load_latest (ensure_dir ''data'' example_fs) = Inr (''20240305-020459.csv'', example_table)
   \<and> \<lparr>csv_Datetime = (2024, 1, 2, 12, 0, 0), csv_Close = NonNumeric ''n/a'', csv_Ticker = ''A''\<rparr>
         \<in> set example_table
   \<and> fst (plot_data (2024, 3, 6, 9, 30, 0) example_fs) =
         Inr (''plots'', timestamp_str (2024, 3, 6, 9, 30, 0) @ ''.png'')
   \<and> length (normalized_frame example_table) = 11
   \<and> \<lparr>Datetime = (2024, 1, 2, 12, 0, 0), Close = None, Ticker = ''A'', NormClose = None\<rparr>
         \<in> set (normalized_frame example_table)"
proof -
  let ?r = "\<lparr>csv_Datetime = (2024, 1, 2, 12, 0, 0), csv_Close = NonNumeric ''n/a'',
             csv_Ticker = ''A''\<rparr>"
  have r: "?r \<in> set example_table"
    by (simp add: example_table_def)
  have c: "csv_Close ?r = NonNumeric ''n/a''"
    by simp
  from non_numeric_close_is_missing[OF load_latest_example r c, of "(2024, 3, 6, 9, 30, 0)"]
    load_latest_example r
  show ?thesis
    by (simp add: example_table_def)
qed

section \<open>Properties of \<^verbatim>\<open>get_data\<close>\<close>

lemma fetch_all_eq:
  "fetch_all download ts dfs =
     dfs @ map (\<lambda>t. map (tag t) (download t)) (filter (\<lambda>t. download t \<noteq> []) ts)"
  by (induction ts arbitrary: dfs) (simp_all add: Let_def)

lemma fetch_all_empty_iff:
  "fetch_all download ts [] = [] \<longleftrightarrow> (\<forall>t \<in> set ts. download t = [])"
  by (simp add: fetch_all_eq filter_empty_conv)

lemma get_data_no_data:
  "\<forall>t \<in> set tickers. download t = [] \<Longrightarrow>
     get_data download now tickers fs =
       (Inl (RuntimeError ''No data downloaded. Check tickers or network.''), fs)"
  by (simp add: get_data_def fetch_all_empty_iff)

lemma get_data_some_data:
  "\<exists>t \<in> set tickers. download t \<noteq> [] \<Longrightarrow>
     get_data download now tickers fs =
       (Inr (''data'', timestamp_str now @ ''.csv''),
        write_file (''data'', timestamp_str now @ ''.csv'')
          (Csv (to_csv (sort_combined (concat (fetch_all download tickers [])))))
          (ensure_dir ''data'' fs))"
  using fetch_all_empty_iff[of download tickers] by (auto simp: get_data_def Let_def)

lemma read_csv_written: "read_csv (write_file p (Csv tbl) fs) p = Inr tbl"
  by (simp add: read_csv_def map_of_write_file)

lemma tickers_fetched:
  "Ticker ` set (concat (fetch_all download tickers [])) = {t \<in> set tickers. download t \<noteq> []}"
  by (auto simp: fetch_all_eq tag_def image_iff) (metis last_in_set)

lemma csv_tickers: "csv_Ticker ` set (to_csv rows) = Ticker ` set rows"
  by (force simp: to_csv_def image_iff)

text \<open>
  C3. \<open>get_data\<close> raises an error exactly when every requested ticker returns an empty
  result, and then the error is the RuntimeError of line 60 and the file system is the one
  the call started with: no file written, no directory created.
\<close>

theorem get_data_raises_iff_no_data:
  "((\<exists>e. fst (get_data download now tickers fs) = Inl e) \<longleftrightarrow> (\<forall>t \<in> set tickers. download t = []))
   \<and> ((\<forall>t \<in> set tickers. download t = []) \<longrightarrow>
        get_data download now tickers fs =
          (Inl (RuntimeError ''No data downloaded. Check tickers or network.''), fs))"
proof (cases "\<forall>t \<in> set tickers. download t = []")
  case True
  then show ?thesis by (simp add: get_data_no_data)
next
  case False
  then have "\<exists>t \<in> set tickers. download t \<noteq> []" by simp
  from get_data_some_data[OF this] False show ?thesis by simp
qed

theorem get_data_raises_iff_no_data_witness:
  "example_download ''C'' = [] \<and> example_download ''D'' = []
   \<and> get_data example_download (2024, 3, 6, 9, 30, 0) [''C'', ''D''] empty_fs =
       (Inl (RuntimeError ''No data downloaded. Check tickers or network.''), empty_fs)
   \<and> dirs (snd (get_data example_download (2024, 3, 6, 9, 30, 0) [''C'', ''D''] empty_fs)) = {}
   \<and> files (snd (get_data example_download (2024, 3, 6, 9, 30, 0) [''C'', ''D''] empty_fs)) = []"
proof -
  have h: "\<forall>t \<in> set [''C'', ''D'']. example_download t = []"
    by (simp add: example_download_def)
  from get_data_raises_iff_no_data[of example_download "(2024, 3, 6, 9, 30, 0)" "[''C'', ''D'']" empty_fs] h
  have "get_data example_download (2024, 3, 6, 9, 30, 0) [''C'', ''D''] empty_fs =
      (Inl (RuntimeError ''No data downloaded. Check tickers or network.''), empty_fs)"
    by blast
  with h show ?thesis by (simp add: empty_fs_def)
qed

text \<open>
  C7. When the fetch of ticker \<open>t\<close> returns nothing and some requested ticker \<open>t'\<close> returns
  rows, \<open>get_data\<close> raises nothing: it returns the path of the table it wrote, and that
  table has rows of \<open>t'\<close> and no row of \<open>t\<close>.
\<close>

theorem empty_ticker_is_skipped:
  assumes "download t = []" and "t' \<in> set tickers" and "download t' \<noteq> []"
  shows "\<exists>tbl. fst (get_data download now tickers fs) = Inr (''data'', timestamp_str now @ ''.csv'')
     \<and> read_csv (snd (get_data download now tickers fs)) (''data'', timestamp_str now @ ''.csv'') = Inr tbl
     \<and> t \<notin> csv_Ticker ` set tbl
     \<and> t' \<in> csv_Ticker ` set tbl"
proof -
  have "\<exists>t \<in> set tickers. download t \<noteq> []"
    using assms(2,3) by blast
  from get_data_some_data[OF this]
  have g: "get_data download now tickers fs =
      (Inr (''data'', timestamp_str now @ ''.csv''),
       write_file (''data'', timestamp_str now @ ''.csv'')
         (Csv (to_csv (sort_combined (concat (fetch_all download tickers [])))))
         (ensure_dir ''data'' fs))" .
  have "csv_Ticker ` set (to_csv (sort_combined (concat (fetch_all download tickers [])))) =
      {t \<in> set tickers. download t \<noteq> []}"
    unfolding csv_tickers sort_combined_def set_sort by (rule tickers_fetched)
  then show ?thesis
    using assms by (simp add: g read_csv_written)
qed

theorem empty_ticker_is_skipped_witness:
  "example_download ''C'' = [] \<and> ''A'' \<in> set [''B'', ''C'', ''A''] \<and> example_download ''A'' \<noteq> []
   \<and> (\<exists>tbl. fst (get_data example_download (2024, 3, 6, 9, 30, 0) [''B'', ''C'', ''A''] empty_fs) =
          Inr (''data'', timestamp_str (2024, 3, 6, 9, 30, 0) @ ''.csv'')
        \<and> read_csv (snd (get_data example_download (2024, 3, 6, 9, 30, 0) [''B'', ''C'', ''A''] empty_fs))
            (''data'', timestamp_str (2024, 3, 6, 9, 30, 0) @ ''.csv'') = Inr tbl
        \<and> ''C'' \<notin> csv_Ticker ` set tbl \<and> ''A'' \<in> csv_Ticker ` set tbl)"
proof -
  have c: "example_download ''C'' = []"
    by (simp add: example_download_def)
  have m: "''A'' \<in> set [''B'', ''C'', ''A'']"
    by simp
  have a: "example_download ''A'' \<noteq> []"
    by (simp add: example_download_def)
  from empty_ticker_is_skipped[OF c m a, of "(2024, 3, 6, 9, 30, 0)" empty_fs] c m a
  show ?thesis by blast
qed

section \<open>The order of the combined table\<close>

lemma concat_fetch_all:
  "concat (fetch_all download ts []) = concat (map (\<lambda>t. map (tag t) (download t)) ts)"
  unfolding fetch_all_eq by (induction ts) simp_all

lemma mset_concat_map:
  "mset (concat (map f ts)) = sum_mset (image_mset (\<lambda>t. mset (f t)) (mset ts))"
  by (induction ts) simp_all

lemma filter_key_concat:
  "filter (\<lambda>r. (Datetime r, Ticker r) = (d, t)) (concat (map (\<lambda>t. map (tag t) (download t)) ts)) =
     concat (replicate (count (mset ts) t)
       (filter (\<lambda>r. (Datetime r, Ticker r) = (d, t)) (map (tag t) (download t))))"
proof (induction ts)
  case Nil
  then show ?case by simp
next
  case (Cons u ts)
  have "u \<noteq> t \<Longrightarrow>
      filter (\<lambda>r. (Datetime r, Ticker r) = (d, t)) (map (tag u) (download u)) = []"
    by (simp add: filter_empty_conv tag_def)
  with Cons show ?case by (cases "u = t") simp_all
qed

lemma sort_combined_perm:
  assumes "mset ts' = mset ts"
  shows "sort_combined (concat (fetch_all download ts' [])) =
     sort_combined (concat (fetch_all download ts []))"
proof -
  let ?key = "\<lambda>r::price_row. (Datetime r, Ticker r)"
  let ?rows = "\<lambda>ts. concat (map (\<lambda>t. map (tag t) (download t)) ts)"
  have "sort_key ?key (?rows ts') = sort_key ?key (?rows ts)"
  proof (rule properties_for_sort_key)
    show "mset (sort_key ?key (?rows ts)) = mset (?rows ts')"
      by (simp add: mset_concat_map assms)
  next
    fix k assume "k \<in> set (sort_key ?key (?rows ts))"
    have "filter (\<lambda>r. ?key r = ?key k) (sort_key ?key (?rows ts)) =
        filter (\<lambda>r. ?key r = ?key k) (?rows ts)"
      by (rule sort_key_stable)
    also have "\<dots> = filter (\<lambda>r. ?key r = ?key k) (?rows ts')"
      by (simp only: filter_key_concat assms)
    finally show "filter (\<lambda>r. ?key k = ?key r) (sort_key ?key (?rows ts)) =
        filter (\<lambda>r. ?key k = ?key r) (?rows ts')"
      by (simp add: eq_commute)
  next
    show "sorted (map ?key (sort_key ?key (?rows ts)))"
      by simp
  qed
  then show ?thesis
    by (simp add: sort_combined_def concat_fetch_all)
qed

lemma lex_le_iff:
  fixes a c :: "'a::linorder" and b d :: "'b::linorder"
  shows "(a, b) \<le> (c, d) \<longleftrightarrow> a < c \<or> (a = c \<and> b \<le> d)"
  by (auto simp: less_eq_prod_def)

lemma sorted_to_csv:
  "sorted_wrt (\<lambda>x y. csv_Datetime x < csv_Datetime y
       \<or> (csv_Datetime x = csv_Datetime y \<and> csv_Ticker x \<le> csv_Ticker y))
     (to_csv (sort_combined rows))"
proof -
  have "sorted (map (\<lambda>r. (Datetime r, Ticker r)) (sort_combined rows))"
    by (simp add: sort_combined_def)
  then have "sorted_wrt (\<lambda>x y. (Datetime x, Ticker x) \<le> (Datetime y, Ticker y)) (sort_combined rows)"
    by (simp add: sorted_map)
  then have "sorted_wrt (\<lambda>x y. Datetime x < Datetime y
       \<or> (Datetime x = Datetime y \<and> Ticker x \<le> Ticker y)) (sort_combined rows)"
    by (simp only: lex_le_iff)
  then show ?thesis
    by (simp add: to_csv_def sorted_wrt_map)
qed

text \<open>
  C4. When some requested ticker yields rows, the table \<open>get_data\<close> writes is ordered by
  timestamp and, among equal timestamps, by ticker; and the whole result of \<open>get_data\<close>,
  with the order of the rows in the table, is the same for every permutation of the list of
  tickers.
\<close>

theorem combined_order_independent_of_fetch_order:
  assumes "mset tickers' = mset tickers" and "\<exists>t \<in> set tickers. download t \<noteq> []"
  shows "get_data download now tickers' fs = get_data download now tickers fs
     \<and> (\<exists>tbl. fst (get_data download now tickers fs) = Inr (''data'', timestamp_str now @ ''.csv'')
          \<and> read_csv (snd (get_data download now tickers fs)) (''data'', timestamp_str now @ ''.csv'')
              = Inr tbl
          \<and> sorted_wrt (\<lambda>x y. csv_Datetime x < csv_Datetime y
                \<or> (csv_Datetime x = csv_Datetime y \<and> csv_Ticker x \<le> csv_Ticker y)) tbl)"
proof -
  have "set tickers' = set tickers"
    using assms(1) by (rule mset_eq_setD)
  with assms(2) have "\<exists>t \<in> set tickers'. download t \<noteq> []"
    by simp
  from get_data_some_data[OF this] get_data_some_data[OF assms(2)]
  show ?thesis
    by (simp add: sort_combined_perm[OF assms(1)] read_csv_written sorted_to_csv)
qed

theorem combined_order_independent_of_fetch_order_witness:
  "mset [''B'', ''C'', ''A''] = mset [''A'', ''B'', ''C'']
   \<and> example_download ''A'' \<noteq> []
   \<and> get_data example_download (2024, 3, 6, 9, 30, 0) [''B'', ''C'', ''A''] empty_fs =
       get_data example_download (2024, 3, 6, 9, 30, 0) [''A'', ''B'', ''C''] empty_fs
   \<and> read_csv (snd (get_data example_download (2024, 3, 6, 9, 30, 0) [''B'', ''C'', ''A''] empty_fs))
         (''data'', timestamp_str (2024, 3, 6, 9, 30, 0) @ ''.csv'') =
       Inr [\<lparr>csv_Datetime = (2024, 1, 2, 10, 0, 0), csv_Close = Numeric (Fin 10), csv_Ticker = ''A''\<rparr>,
            \<lparr>csv_Datetime = (2024, 1, 2, 10, 0, 0), csv_Close = Numeric (Fin 100), csv_Ticker = ''B''\<rparr>,
            \<lparr>csv_Datetime = (2024, 1, 2, 11, 0, 0), csv_Close = Numeric (Fin 11), csv_Ticker = ''A''\<rparr>,
            \<lparr>csv_Datetime = (2024, 1, 2, 11, 0, 0), csv_Close = Numeric (Fin 90), csv_Ticker = ''B''\<rparr>,
            \<lparr>csv_Datetime = (2024, 1, 2, 12, 0, 0), csv_Close = Numeric (Fin 12), csv_Ticker = ''A''\<rparr>]"
proof -
  have p: "mset [''B'', ''C'', ''A''] = mset [''A'', ''B'', ''C'']"
    by (simp add: add_mset_commute)
  have d: "\<exists>t \<in> set [''A'', ''B'', ''C'']. example_download t \<noteq> []"
    by (simp add: example_download_def)
  from combined_order_independent_of_fetch_order[OF p d, of "(2024, 3, 6, 9, 30, 0)" empty_fs]
  have e: "get_data example_download (2024, 3, 6, 9, 30, 0) [''B'', ''C'', ''A''] empty_fs =
      get_data example_download (2024, 3, 6, 9, 30, 0) [''A'', ''B'', ''C''] empty_fs"
    by simp
  have "read_csv (snd (get_data example_download (2024, 3, 6, 9, 30, 0) [''A'', ''B'', ''C''] empty_fs))
         (''data'', timestamp_str (2024, 3, 6, 9, 30, 0) @ ''.csv'') =
       Inr [\<lparr>csv_Datetime = (2024, 1, 2, 10, 0, 0), csv_Close = Numeric (Fin 10), csv_Ticker = ''A''\<rparr>,
            \<lparr>csv_Datetime = (2024, 1, 2, 10, 0, 0), csv_Close = Numeric (Fin 100), csv_Ticker = ''B''\<rparr>,
            \<lparr>csv_Datetime = (2024, 1, 2, 11, 0, 0), csv_Close = Numeric (Fin 11), csv_Ticker = ''A''\<rparr>,
            \<lparr>csv_Datetime = (2024, 1, 2, 11, 0, 0), csv_Close = Numeric (Fin 90), csv_Ticker = ''B''\<rparr>,
            \<lparr>csv_Datetime = (2024, 1, 2, 12, 0, 0), csv_Close = Numeric (Fin 12), csv_Ticker = ''A''\<rparr>]"
    by (simp add: get_data_def example_download_def Let_def read_csv_written sort_combined_def
        to_csv_def tag_def less_eq_prod_def less_prod_def)
  moreover have "example_download ''A'' \<noteq> []"
    by (simp add: example_download_def)
  ultimately show ?thesis using p e by simp
qed

section \<open>File names and time\<close>














section \<open>Selecting the latest table, and the errors\<close>

lemma glob_csv_ensure_dir: "glob_csv d (ensure_dir p fs) = glob_csv d fs"
  by (simp add: glob_csv_def ensure_dir_def)




lemma plot_data_no_csv:
  "glob_csv ''data'' fs = [] \<Longrightarrow>
     plot_data now fs =
       (Inl (FileNotFoundError ''No CSV files in data/. Run download first.''), ensure_dir ''data'' fs)"
  by (simp add: plot_data_def load_latest_def latest_csv_def glob_csv_ensure_dir Let_def)



text \<open>
  C6. With no table file in the data directory \<open>plot_data\<close> raises a FileNotFoundError;
  when every ticker returns an empty result \<open>get_data\<close> raises a RuntimeError. Neither
  error is of the other's kind, whatever the message.
\<close>

theorem missing_artifacts_error_is_distinct:
  assumes "glob_csv ''data'' fs = []" and "\<forall>t \<in> set tickers. download t = []"
  shows "fst (plot_data now fs) =
       Inl (FileNotFoundError ''No CSV files in data/. Run download first.'')
     \<and> fst (get_data download now' tickers fs') =
       Inl (RuntimeError ''No data downloaded. Check tickers or network.'')
     \<and> (\<forall>m. fst (plot_data now fs) \<noteq> Inl (RuntimeError m))
     \<and> (\<forall>m. fst (get_data download now' tickers fs') \<noteq> Inl (FileNotFoundError m))
     \<and> fst (plot_data now fs) \<noteq> fst (get_data download now' tickers fs')"
  by (simp add: plot_data_no_csv[OF assms(1)] get_data_no_data[OF assms(2)])

theorem missing_artifacts_error_is_distinct_witness:
  "glob_csv ''data'' empty_fs = [] \<and> example_download ''C'' = [] \<and> example_download ''D'' = []
   \<and> fst (plot_data (2024, 3, 6, 9, 30, 0) empty_fs) =
       Inl (FileNotFoundError ''No CSV files in data/. Run download first.'')
   \<and> fst (get_data example_download (2024, 3, 6, 9, 30, 0) [''C'', ''D''] empty_fs) =
       Inl (RuntimeError ''No data downloaded. Check tickers or network.'')
   \<and> fst (plot_data (2024, 3, 6, 9, 30, 0) empty_fs) \<noteq>
       fst (get_data example_download (2024, 3, 6, 9, 30, 0) [''C'', ''D''] empty_fs)"
proof -
  have g: "glob_csv ''data'' empty_fs = []"
    by (simp add: glob_csv_def empty_fs_def)
  have d: "\<forall>t \<in> set [''C'', ''D'']. example_download t = []"
    by (simp add: example_download_def)
  from missing_artifacts_error_is_distinct[OF g d, of "(2024, 3, 6, 9, 30, 0)" "(2024, 3, 6, 9, 30, 0)" empty_fs]
    g d
  show ?thesis by simp
qed

text \<open>
  C9. With no table file in the data directory, which is the case when the directory is
  not there, \<open>plot_data\<close> raises the FileNotFoundError after \<open>ensure_dir\<close> has run: the file
  system it leaves has the data directory and the files it had, and differs from the one
  the call started with when the directory was absent.
\<close>

theorem plot_data_creates_data_dir_before_raising:
  assumes "glob_csv ''data'' fs = []"
  shows "plot_data now fs =
       (Inl (FileNotFoundError ''No CSV files in data/. Run download first.''), ensure_dir ''data'' fs)
     \<and> ''data'' \<in> dirs (snd (plot_data now fs))
     \<and> dirs (snd (plot_data now fs)) = insert ''data'' (dirs fs)
     \<and> files (snd (plot_data now fs)) = files fs
     \<and> (''data'' \<notin> dirs fs \<longrightarrow> snd (plot_data now fs) \<noteq> fs)"
proof -
  have "''data'' \<notin> dirs fs \<Longrightarrow> ensure_dir ''data'' fs \<noteq> fs"
    by (metis ensure_dir_def filesystem.select_convs(1) filesystem.surjective
        filesystem.update_convs(1) insertI1)
  then show ?thesis
    by (simp add: plot_data_no_csv[OF assms]) (simp add: ensure_dir_def)
qed

theorem plot_data_creates_data_dir_before_raising_witness:
  "glob_csv ''data'' empty_fs = [] \<and> ''data'' \<notin> dirs empty_fs
   \<and> fst (plot_data (2024, 3, 6, 9, 30, 0) empty_fs) =
       Inl (FileNotFoundError ''No CSV files in data/. Run download first.'')
   \<and> dirs (snd (plot_data (2024, 3, 6, 9, 30, 0) empty_fs)) = {''data''}
   \<and> snd (plot_data (2024, 3, 6, 9, 30, 0) empty_fs) \<noteq> empty_fs"
proof -
  have g: "glob_csv ''data'' empty_fs = []"
    by (simp add: glob_csv_def empty_fs_def)
  have a: "''data'' \<notin> dirs empty_fs"
    by (simp add: empty_fs_def)
  from plot_data_creates_data_dir_before_raising[OF g, of "(2024, 3, 6, 9, 30, 0)"] g a
  show ?thesis by (simp add: empty_fs_def ensure_dir_def)
qed

end
